theory Spec2Isabelle
  imports Complex_Main "HOL-Library.AList" "HOL-Library.Char_ord" "HOL-Library.List_Lexorder"
    "HOL-Library.Multiset"
begin

section \<open>Python values and dictionaries\<close>

text \<open>
  The pipeline passes loosely typed dictionaries around (\<open>Dict[str, Any]\<close>). A value
  is one of the shapes \<open>json.loads\<close> and the feed adapters produce. A Python \<open>str\<close> is
  modelled as a \<open>string\<close> whose characters are code points below 256; a float is a
  rational or one of the three non-finite values.
\<close>

datatype pyfloat = Fin rat | NaN | PosInf | NegInf

datatype pyval =
    PNone
  | PBool bool
  | PInt int
  | PFloat pyfloat
  | PStr string
  | PList "pyval list"
  | PDict "(string \<times> pyval) list"

type_synonym pydict = "(string \<times> pyval) list"

text \<open>\<open>d.get(k)\<close>: the value, or \<open>None\<close> when the key is absent.\<close>

definition dict_get :: "pydict \<Rightarrow> string \<Rightarrow> pyval" where
  "dict_get d k = (case map_of d k of None \<Rightarrow> PNone | Some v \<Rightarrow> v)"

text \<open>\<open>d.get(k, dflt)\<close>.\<close>

definition dict_get_or :: "pydict \<Rightarrow> string \<Rightarrow> pyval \<Rightarrow> pyval" where
  "dict_get_or d k dflt = (case map_of d k of None \<Rightarrow> dflt | Some v \<Rightarrow> v)"

text \<open>\<open>d[k] = v\<close>: an existing key keeps its place, a new one goes last.\<close>

definition dict_set :: "pydict \<Rightarrow> string \<Rightarrow> pyval \<Rightarrow> pydict" where
  "dict_set d k v = AList.update k v d"

text \<open>Python truthiness (\<open>bool(v)\<close>, \<open>if v:\<close>, \<open>not v\<close>).\<close>

fun truthy :: "pyval \<Rightarrow> bool" where
  "truthy PNone = False"
| "truthy (PBool b) = b"
| "truthy (PInt i) = (i \<noteq> 0)"
| "truthy (PFloat (Fin q)) = (q \<noteq> 0)"
| "truthy (PFloat _) = True"
| "truthy (PStr s) = (s \<noteq> [])"
| "truthy (PList xs) = (xs \<noteq> [])"
| "truthy (PDict d) = (d \<noteq> [])"

section \<open>Watermark diff (sources.py)\<close>

text \<open>
  \<open>get_new_entries(entries, last_top_link)\<close>. The stored watermark is an
  \<open>Optional[str]\<close>; the test \<open>not last_top_link\<close> holds for \<open>None\<close> and for the empty
  string. The loop appends entries until one carries the watermark link.
\<close>

definition no_watermark :: "string option \<Rightarrow> bool" where
  "no_watermark last_top_link = (case last_top_link of None \<Rightarrow> True | Some l \<Rightarrow> l = [])"

fun scan_new :: "pydict list \<Rightarrow> string \<Rightarrow> pydict list" where
  "scan_new [] l = []"
| "scan_new (entry # rest) l =
     (if dict_get entry ''link'' = PStr l then [] else entry # scan_new rest l)"

fun get_new_entries :: "pydict list \<Rightarrow> string option \<Rightarrow> pydict list \<times> pyval" where
  "get_new_entries [] last_top_link = ([], PNone)"
| "get_new_entries (e0 # rest) last_top_link =
     (let current_top_link = dict_get e0 ''link'' in
      if no_watermark last_top_link then (e0 # rest, current_top_link)
      else if current_top_link = PStr (the last_top_link) then ([], current_top_link)
      else (scan_new (e0 # rest) (the last_top_link), current_top_link))"

section \<open>Relevance filter (llm.py)\<close>

text \<open>
  The exceptions the model distinguishes. \<open>External\<close> stands for whatever a library
  call outside the repository raises (network, parser, browser).
\<close>

datatype pyexn = TypeError | AttributeError | KeyError | ValueError | OverflowError | External

text \<open>
  The entries of a batch are dictionary objects that \<open>_run_filter\<close> annotates in
  place and hands back by reference. An entry is therefore an address, and the objects
  live in a store.
\<close>

type_synonym addr = nat
type_synonym heap = "addr \<Rightarrow> pydict"

definition heap_set :: "heap \<Rightarrow> addr \<Rightarrow> string \<Rightarrow> pyval \<Rightarrow> heap" where
  "heap_set h a k v = h(a := dict_set (h a) k v)"

definition VALID_CATEGORIES :: "string list" where
  "VALID_CATEGORIES =
     [''Market'', ''Macro'', ''Commodity'', ''Sectoral'', ''Corporate Action'', ''Disclosure'']"

definition VALID_SENTIMENTS :: "string list" where
  "VALID_SENTIMENTS = [''bullish'', ''bearish'', ''neutral'']"

fun hashable :: "pyval \<Rightarrow> bool" where
  "hashable (PList xs) = False"
| "hashable (PDict d) = False"
| "hashable v = True"

text \<open>\<open>v in S\<close> for a frozenset of strings: hashing a list or a dict raises.\<close>

definition in_frozenset :: "pyval \<Rightarrow> string list \<Rightarrow> pyexn + bool" where
  "in_frozenset v S =
     (if \<not> hashable v then Inl TypeError
      else Inr (case v of PStr s \<Rightarrow> s \<in> set S | _ \<Rightarrow> False))"

text \<open>
  \<open>r.get("index", 0) - 1\<close>: an int (a bool counts as one) stays an int, a float stays
  a float, anything else raises. The comparisons \<open>0 <= idx < len(entries)\<close> on a float
  agree with the rational ones (the subtraction is exact wherever the outcome could change).
\<close>

datatype pynum = NInt int | NFloat pyfloat

fun float_minus_one :: "pyfloat \<Rightarrow> pyfloat" where
  "float_minus_one (Fin q) = Fin (q - 1)"
| "float_minus_one f = f"

fun minus_one :: "pyval \<Rightarrow> pyexn + pynum" where
  "minus_one (PInt i) = Inr (NInt (i - 1))"
| "minus_one (PBool b) = Inr (NInt ((if b then 1 else 0) - 1))"
| "minus_one (PFloat f) = Inr (NFloat (float_minus_one f))"
| "minus_one v = Inl TypeError"

fun in_range :: "pynum \<Rightarrow> nat \<Rightarrow> bool" where
  "in_range (NInt i) n = (0 \<le> i \<and> i < int n)"
| "in_range (NFloat (Fin q)) n = (0 \<le> q \<and> q < of_nat n)"
| "in_range (NFloat f) n = False"

fun is_list :: "pyval \<Rightarrow> bool" where
  "is_list (PList xs) = True"
| "is_list v = False"

text \<open>
  The body of the loop of \<open>_run_filter\<close> for one result object \<open>r\<close> that is a
  dictionary: the new store, and either the exception raised, or the entry appended to
  \<open>relevant\<close> (if any). A store write made before an exception stays.
\<close>

definition annotate_category :: "bool \<Rightarrow> pydict \<Rightarrow> addr \<Rightarrow> heap \<Rightarrow> heap \<times> (pyexn + unit)" where
  "annotate_category is_idx r entry h =
     (if is_idx then
        (let h1 = heap_set h entry ''_filter_category'' (PStr ''Disclosure'');
             h2 = heap_set h1 entry ''_filter_sub_category''
                    (dict_get_or r ''sub_category'' (PStr ''lainnya''));
             sub = dict_get_or r ''sub_category'' (PStr [])
         in if sub = PStr ''lapkeu_tahunan'' \<or> sub = PStr ''lapkeu_kuartal''
            then (heap_set h2 entry ''_is_lapkeu'' (PBool True), Inr ())
            else (h2, Inr ()))
      else
        (let cat = dict_get_or r ''category'' (PStr ''Market'') in
         case in_frozenset cat VALID_CATEGORIES of
           Inl e \<Rightarrow> (h, Inl e)
         | Inr known \<Rightarrow>
             (heap_set h entry ''_filter_category'' (if known then cat else PStr ''Market''),
              Inr ())))"

definition annotate_sentiment :: "pydict \<Rightarrow> addr \<Rightarrow> heap \<Rightarrow> heap \<times> (pyexn + unit)" where
  "annotate_sentiment r entry h =
     (let sentiment = dict_get_or r ''sentiment'' (PStr ''neutral'') in
      case in_frozenset sentiment VALID_SENTIMENTS of
        Inl e \<Rightarrow> (h, Inl e)
      | Inr known \<Rightarrow>
          (let h1 = heap_set h entry ''_filter_sentiment''
                      (if known then sentiment else PStr ''neutral'');
               h2 = heap_set h1 entry ''_filter_reason'' (dict_get_or r ''reason'' (PStr []))
           in (h2, Inr ())))"

definition filter_item ::
  "bool \<Rightarrow> addr list \<Rightarrow> pydict \<Rightarrow> heap \<Rightarrow> heap \<times> (pyexn + addr option)" where
  "filter_item is_idx entries r h =
     (case minus_one (dict_get_or r ''index'' (PInt 0)) of
        Inl e \<Rightarrow> (h, Inl e)
      | Inr idx \<Rightarrow>
          if in_range idx (length entries) \<and> truthy (dict_get_or r ''relevant'' (PBool False))
          then (case idx of
                  NFloat f \<Rightarrow> (h, Inl TypeError)
                | NInt i \<Rightarrow>
                    (let entry = entries ! nat i in
                     case annotate_category is_idx r entry h of
                       (h1, Inl e) \<Rightarrow> (h1, Inl e)
                     | (h1, Inr u) \<Rightarrow>
                         (case annotate_sentiment r entry h1 of
                            (h2, Inl e) \<Rightarrow> (h2, Inl e)
                          | (h2, Inr u) \<Rightarrow> (h2, Inr (Some entry)))))
          else (h, Inr None))"

fun run_filter_loop ::
  "bool \<Rightarrow> addr list \<Rightarrow> pyval list \<Rightarrow> addr list \<Rightarrow> heap \<Rightarrow> heap \<times> (pyexn + addr list)" where
  "run_filter_loop is_idx entries [] relevant h = (h, Inr relevant)"
| "run_filter_loop is_idx entries (r # rs) relevant h =
     (case r of
        PDict rd \<Rightarrow>
          (case filter_item is_idx entries rd h of
             (h1, Inl e) \<Rightarrow> (h1, Inl e)
           | (h1, Inr None) \<Rightarrow> run_filter_loop is_idx entries rs relevant h1
           | (h1, Inr (Some entry)) \<Rightarrow>
               run_filter_loop is_idx entries rs (relevant @ [entry]) h1)
      | _ \<Rightarrow> run_filter_loop is_idx entries rs relevant h)"

text \<open>
  \<open>_run_filter\<close>. The argument \<open>resp\<close> is the outcome of \<open>groq.chat\<close> followed by
  \<open>json.loads\<close>: the parsed value, or the exception either of them raised. Every
  exception inside the \<open>try\<close> ends in \<open>return entries\<close>.
\<close>

definition run_filter ::
  "(pyexn + pyval) \<Rightarrow> addr list \<Rightarrow> bool \<Rightarrow> heap \<Rightarrow> addr list \<times> heap" where
  "run_filter resp entries is_idx h =
     (case resp of
        Inl e \<Rightarrow> (entries, h)
      | Inr (PDict data) \<Rightarrow>
          (case dict_get_or data ''results'' (PList []) of
             PList results_list \<Rightarrow>
               (case run_filter_loop is_idx entries results_list [] h of
                  (h1, Inl e) \<Rightarrow> (entries, h1)
                | (h1, Inr relevant) \<Rightarrow> (relevant, h1))
           | _ \<Rightarrow> (entries, h))
      | Inr _ \<Rightarrow> (entries, h))"

text \<open>
  \<open>filter_news_batch\<close>: the router. The classifier is an oracle indexed by the number
  of calls made so far; \<open>_filter_news\<close> and \<open>_filter_idx\<close> build their prompt and call
  \<open>_run_filter\<close>, the second with \<open>is_idx=True\<close>.
\<close>

definition is_idx_entry :: "heap \<Rightarrow> addr \<Rightarrow> bool" where
  "is_idx_entry h e = (dict_get (h e) ''source_type'' = PStr ''idx_api'')"

definition filter_news_batch ::
  "(nat \<Rightarrow> pyexn + pyval) \<Rightarrow> nat \<Rightarrow> addr list \<Rightarrow> heap \<Rightarrow> addr list \<times> heap \<times> nat" where
  "filter_news_batch groq calls entries h =
     (if entries = [] then ([], h, calls)
      else
        (let news_entries = filter (\<lambda>e. \<not> is_idx_entry h e) entries;
             idx_entries = filter (is_idx_entry h) entries;
             (rel1, h1, calls1) =
               (if news_entries \<noteq> []
                then (let (r, h') = run_filter (groq calls) news_entries False h
                      in (r, h', Suc calls))
                else ([], h, calls));
             (rel2, h2, calls2) =
               (if idx_entries \<noteq> []
                then (let (r, h') = run_filter (groq calls1) idx_entries True h1
                      in (rel1 @ r, h', Suc calls1))
                else (rel1, h1, calls1))
         in (rel2, h2, calls2)))"

text \<open>
  The two shapes of classifier response the properties below speak about: a response
  object whose \<open>results\<close> field is present and not a list, and a response that makes
  \<open>_run_filter\<close> fall back (an exception from the call or the parser, a value that is
  not an object, a \<open>results\<close> field that is not a list, or an exception while the
  results are read).
\<close>

definition nonlist_results :: "pyexn + pyval \<Rightarrow> bool" where
  "nonlist_results resp =
     (case resp of
        Inr (PDict data) \<Rightarrow>
          (case map_of data ''results'' of Some v \<Rightarrow> \<not> is_list v | None \<Rightarrow> False)
      | _ \<Rightarrow> False)"

definition falls_back :: "pyexn + pyval \<Rightarrow> addr list \<Rightarrow> bool \<Rightarrow> heap \<Rightarrow> bool" where
  "falls_back resp entries is_idx h =
     (case resp of
        Inl e \<Rightarrow> True
      | Inr (PDict data) \<Rightarrow>
          (case dict_get_or data ''results'' (PList []) of
             PList results_list \<Rightarrow> isl (snd (run_filter_loop is_idx entries results_list [] h))
           | _ \<Rightarrow> True)
      | Inr _ \<Rightarrow> True)"

section \<open>Text helpers (helpers.py, config.py)\<close>

text \<open>\<open>str.lower()\<close> on code points below 256.\<close>

definition lower_char :: "char \<Rightarrow> char" where
  "lower_char c =
     (let n = (of_char c :: nat) in
      if (65 \<le> n \<and> n \<le> 90) \<or> (192 \<le> n \<and> n \<le> 222 \<and> n \<noteq> 215)
      then char_of (n + 32) else c)"

definition lower :: "string \<Rightarrow> string" where
  "lower s = map lower_char s"

text \<open>The characters \<open>str.strip()\<close> removes, among the code points below 256.\<close>

definition is_space :: "char \<Rightarrow> bool" where
  "is_space c =
     (let n = (of_char c :: nat) in
      (9 \<le> n \<and> n \<le> 13) \<or> (28 \<le> n \<and> n \<le> 32) \<or> n = 133 \<or> n = 160)"

definition strip :: "string \<Rightarrow> string" where
  "strip s = rev (dropWhile is_space (rev (dropWhile is_space s)))"

fun starts_with :: "string \<Rightarrow> string \<Rightarrow> bool" where
  "starts_with s [] = True"
| "starts_with [] (m # ms) = False"
| "starts_with (c # cs) (m # ms) = (c = m \<and> starts_with cs ms)"

text \<open>\<open>m in s\<close> for strings.\<close>

fun contains :: "string \<Rightarrow> string \<Rightarrow> bool" where
  "contains [] m = (m = [])"
| "contains (c # cs) m = (starts_with (c # cs) m \<or> contains cs m)"

definition ends_with :: "string \<Rightarrow> string \<Rightarrow> bool" where
  "ends_with s m = starts_with (rev s) (rev m)"

text \<open>
  \<open>re.sub\<close> of a pattern \<open>[class]{k,}\<close> by a fixed string: each maximal run of
  characters of the class that is at least \<open>k\<close> long is replaced, shorter runs stay.
  \<open>run\<close> holds the run read so far.
\<close>

definition flush_run :: "nat \<Rightarrow> string \<Rightarrow> string \<Rightarrow> string" where
  "flush_run k rep run = (if k \<le> length run then rep else run)"

fun sub_runs :: "(char \<Rightarrow> bool) \<Rightarrow> nat \<Rightarrow> string \<Rightarrow> string \<Rightarrow> string \<Rightarrow> string" where
  "sub_runs P k rep run [] = flush_run k rep run"
| "sub_runs P k rep run (c # cs) =
     (if P c then sub_runs P k rep (run @ [c]) cs
      else flush_run k rep run @ c # sub_runs P k rep [] cs)"

definition clean_text :: "string \<Rightarrow> string" where
  "clean_text text =
     (let t1 = sub_runs (\<lambda>c. c = CHR 0x0A) 3 [CHR 0x0A, CHR 0x0A] [] text;
          t2 = sub_runs (\<lambda>c. c = CHR '' '' \<or> c = CHR 0x09) 2 '' '' [] t1
      in strip t2)"

definition CLOUDFLARE_MARKERS :: "string list" where
  "CLOUDFLARE_MARKERS =
     [''just a moment'', ''tunggu sebentar'', ''un moment'',
      ''einen moment'', ''un momento'', ''aguarde'',
      ''challenge-platform'', ''cf-challenge'', ''cf_chl_opt'']"

definition is_cloudflare_blocked :: "string \<Rightarrow> bool" where
  "is_cloudflare_blocked text =
     (let lower_text = lower (take 3000 text)
      in list_ex (\<lambda>marker. contains lower_text marker) CLOUDFLARE_MARKERS)"

definition MIN_CONTENT_LENGTH :: nat where
  "MIN_CONTENT_LENGTH = 100"

section \<open>Content extraction cascade (scraper.py)\<close>

text \<open>
  Everything outside the repository is an oracle of the record \<open>web\<close>: the HTTP client,
  the article-text library, the PDF reader and the browser. Each returns its value or the
  exception it raises.
  \<^item> \<open>http_get\<close>: \<open>session.get(url)\<close>, giving \<open>status_code\<close> and \<open>text\<close>.
  \<^item> \<open>article_text\<close>: \<open>Article(url)\<close>, \<open>set_html\<close>, \<open>parse\<close>, then \<open>art.text\<close>.
  \<^item> \<open>extract_from_selectors\<close>: \<open>_extract_from_selectors\<close>, whose body is one
    \<open>try\<close> over the HTML-parser library that returns \<open>None\<close> on any exception.
  \<^item> \<open>browser_launch\<close>: the Playwright import, \<open>sync_playwright()\<close> and
    \<open>chromium.launch\<close>, all before the \<open>try\<close> of the browser functions.
  \<^item> \<open>browser_page\<close>: the page operations of \<open>_run_browser_html\<close> inside its
    \<open>try\<close>, up to the last \<open>page.content()\<close> and the closing of page and context;
    the challenge-wait loop, the consent click and the scroll only wait and re-read, so
    their one effect on the result is the final HTML or an exception.
  \<^item> \<open>browser_close\<close>: \<open>browser.close()\<close> in the \<open>finally\<close> block.
  \<^item> \<open>http_get_pdf\<close>: \<open>requests.get\<close> of a document, giving status, content type
    and body; \<open>pdf_pages\<close>: the page texts the PDF library reads from a body.
  \<^item> \<open>pdf_page_open\<close>, \<open>pdf_js_fetch\<close>, \<open>pdf_download\<close>, \<open>pdf_page_close\<close>:
    the steps of \<open>_run_browser_pdf\<close> (new page and optional navigation; the in-page
    fetch with the decoded bytes, \<open>None\<close> when the script returns nothing; the file
    download; closing page and context).
\<close>

record web =
  http_get :: "string \<Rightarrow> pyexn + (int \<times> string)"
  article_text :: "string \<Rightarrow> string \<Rightarrow> pyexn + string"
  extract_from_selectors :: "string \<Rightarrow> string option"
  browser_launch :: "string \<Rightarrow> pyexn + unit"
  browser_page :: "string \<Rightarrow> pyexn + string"
  browser_close :: "string \<Rightarrow> pyexn + unit"
  http_get_pdf :: "string \<Rightarrow> pyexn + (int \<times> string \<times> string)"
  pdf_pages :: "string \<Rightarrow> pyexn + string list"
  pdf_page_open :: "string \<Rightarrow> pyexn + unit"
  pdf_js_fetch :: "string \<Rightarrow> pyexn + string option"
  pdf_download :: "string \<Rightarrow> pyexn + string"
  pdf_page_close :: "string \<Rightarrow> pyexn + unit"

text \<open>The strategies a call runs, in order, so that a property can say which ran.\<close>

datatype strategy = Requests | BrowserHtml | RequestsPdf | BrowserPdf

definition is_pdf_url :: "string \<Rightarrow> bool" where
  "is_pdf_url url = (ends_with (lower url) ''.pdf'' \<or> contains (lower url) ''/pdf/'')"

text \<open>\<open>"\\n".join(parts)\<close>.\<close>

fun join_lines :: "string list \<Rightarrow> string" where
  "join_lines [] = []"
| "join_lines [p] = p"
| "join_lines (p # q # ps) = p @ CHR 0x0A # join_lines (q # ps)"

definition extract_pdf_text_from_bytes :: "web \<Rightarrow> string \<Rightarrow> pyexn + string" where
  "extract_pdf_text_from_bytes w pdf_bytes =
     (case pdf_pages w pdf_bytes of
        Inl e \<Rightarrow> Inl e
      | Inr text_parts \<Rightarrow> Inr (clean_text (join_lines text_parts)))"

text \<open>
  The extraction both HTML strategies run on a fetched page, inside their \<open>try\<close>: the
  article library first, the selector fallback second. \<open>Inl\<close> is an exception of the
  article library (caught by the caller's \<open>except\<close>), \<open>Inr None\<close> means neither gave
  enough text. The length test reads the text before \<open>clean_text\<close>.
\<close>

definition extract_html :: "web \<Rightarrow> string \<Rightarrow> string \<Rightarrow> pyexn + string option" where
  "extract_html w url html =
     (case article_text w url html of
        Inl e \<Rightarrow> Inl e
      | Inr art_text \<Rightarrow>
          if art_text \<noteq> [] \<and> MIN_CONTENT_LENGTH \<le> length art_text
          then Inr (Some (clean_text art_text))
          else (case extract_from_selectors w html of
                  None \<Rightarrow> Inr None
                | Some text \<Rightarrow>
                    if text \<noteq> [] \<and> MIN_CONTENT_LENGTH \<le> length text
                    then Inr (Some (clean_text text))
                    else Inr None))"

text \<open>
  \<open>_run_browser_html\<close>. The launch stands before the \<open>try\<close>; an exception inside the
  \<open>try\<close> is logged and the function returns \<open>None\<close>; \<open>browser.close()\<close> runs in
  \<open>finally\<close> either way.
\<close>

definition run_browser_html :: "web \<Rightarrow> string \<Rightarrow> pyexn + string option" where
  "run_browser_html w url =
     (case browser_launch w url of
        Inl e \<Rightarrow> Inl e
      | Inr u \<Rightarrow>
          (let body =
             (case browser_page w url of
                Inl e \<Rightarrow> None
              | Inr html_content \<Rightarrow>
                  if html_content \<noteq> [] \<and> \<not> is_cloudflare_blocked html_content
                  then (case extract_html w url html_content of
                          Inl e \<Rightarrow> None
                        | Inr res \<Rightarrow> res)
                  else None)
           in case browser_close w url of
                Inl e \<Rightarrow> Inl e
              | Inr u \<Rightarrow> Inr body))"

text \<open>
  \<open>_scrape_html\<close>: the lightweight fetch inside a \<open>try\<close>, then the browser fallback
  outside it. The second component lists the strategies that ran.
\<close>

definition scrape_html :: "web \<Rightarrow> string \<Rightarrow> (pyexn + string option) \<times> strategy list" where
  "scrape_html w url =
     (let quick =
        (case http_get w url of
           Inl e \<Rightarrow> None
         | Inr (status_code, text) \<Rightarrow>
             if status_code = 200 \<and> \<not> is_cloudflare_blocked text
             then (case extract_html w url text of
                     Inl e \<Rightarrow> None
                   | Inr res \<Rightarrow> res)
             else None)
      in case quick of
           Some text \<Rightarrow> (Inr (Some text), [Requests])
         | None \<Rightarrow> (run_browser_html w url, [Requests, BrowserHtml]))"

text \<open>
  The text a PDF strategy accepts from a body: the cleaned text when the reader does not
  raise and the text is long enough.
\<close>

definition accept_pdf :: "web \<Rightarrow> string \<Rightarrow> pyexn + string option" where
  "accept_pdf w pdf_bytes =
     (case extract_pdf_text_from_bytes w pdf_bytes of
        Inl e \<Rightarrow> Inl e
      | Inr text \<Rightarrow>
          if text \<noteq> [] \<and> MIN_CONTENT_LENGTH \<le> length text then Inr (Some text)
          else Inr None)"

text \<open>
  \<open>_run_browser_pdf\<close>: method A (in-page fetch) and method B (download), each in its
  own \<open>try\<close>, inside the outer \<open>try\<close>; the launch before it, \<open>browser.close()\<close> in
  \<open>finally\<close>. A method returns its text only after page and context closed without
  raising.
\<close>

definition pdf_method :: "web \<Rightarrow> string \<Rightarrow> pyexn + string option \<Rightarrow> string option" where
  "pdf_method w url fetched =
     (case fetched of
        Inl e \<Rightarrow> None
      | Inr None \<Rightarrow> None
      | Inr (Some pdf_bytes) \<Rightarrow>
          if pdf_bytes \<noteq> [] \<and> 100 < length pdf_bytes
          then (case accept_pdf w pdf_bytes of
                  Inr (Some text) \<Rightarrow>
                    (case pdf_page_close w url of Inl e \<Rightarrow> None | Inr u \<Rightarrow> Some text)
                | _ \<Rightarrow> None)
          else None)"

definition run_browser_pdf :: "web \<Rightarrow> string \<Rightarrow> pyexn + string option" where
  "run_browser_pdf w url =
     (case browser_launch w url of
        Inl e \<Rightarrow> Inl e
      | Inr u \<Rightarrow>
          (let body =
             (case pdf_page_open w url of
                Inl e \<Rightarrow> None
              | Inr u \<Rightarrow>
                  (case pdf_method w url (pdf_js_fetch w url) of
                     Some text \<Rightarrow> Some text
                   | None \<Rightarrow>
                       pdf_method w url (map_sum id Some (pdf_download w url))))
           in case browser_close w url of
                Inl e \<Rightarrow> Inl e
              | Inr u \<Rightarrow> Inr body))"

definition scrape_pdf :: "web \<Rightarrow> string \<Rightarrow> (pyexn + string option) \<times> strategy list" where
  "scrape_pdf w url =
     (let quick =
        (case http_get_pdf w url of
           Inl e \<Rightarrow> None
         | Inr (status_code, content_type, content) \<Rightarrow>
             if status_code = 200 \<and> contains (lower content_type) ''pdf''
             then (case accept_pdf w content of
                     Inr (Some text) \<Rightarrow> Some text
                   | _ \<Rightarrow> None)
             else None)
      in case quick of
           Some text \<Rightarrow> (Inr (Some text), [RequestsPdf])
         | None \<Rightarrow> (run_browser_pdf w url, [RequestsPdf, BrowserPdf]))"

definition scrape_article :: "web \<Rightarrow> string \<Rightarrow> (pyexn + string option) \<times> strategy list" where
  "scrape_article w url = (if is_pdf_url url then scrape_pdf w url else scrape_html w url)"

text \<open>
  The first lines of \<open>analyze_single\<close>: the content handed to the analysis prompt. The
  call of \<open>scrape_article\<close> stands outside any \<open>try\<close>.
\<close>

definition analysis_content :: "web \<Rightarrow> string \<Rightarrow> string \<Rightarrow> string \<Rightarrow> pyexn + string" where
  "analysis_content w url title rss_summary =
     (case fst (scrape_article w url) of
        Inl e \<Rightarrow> Inl e
      | Inr content \<Rightarrow>
          (case content of
             None \<Rightarrow> Inr (title @ [CHR 0x0A, CHR 0x0A] @ rss_summary)
           | Some text \<Rightarrow>
               if text = [] \<or> length text < MIN_CONTENT_LENGTH
               then Inr (title @ [CHR 0x0A, CHR 0x0A] @ rss_summary)
               else Inr text))"

text \<open>
  Example environments. In \<open>offline_web\<close> every request and every browser step raises.
  In \<open>spaced_web\<close> the page is served and the article library reads a text of exactly
  100 characters with two consecutive blanks in it. In \<open>article_web\<close> the article
  library reads 120 characters without blank runs.
\<close>

definition offline_web :: web where
  "offline_web =
     \<lparr> http_get = (\<lambda>url. Inl External),
       article_text = (\<lambda>url html. Inl External),
       extract_from_selectors = (\<lambda>html. None),
       browser_launch = (\<lambda>url. Inl External),
       browser_page = (\<lambda>url. Inl External),
       browser_close = (\<lambda>url. Inr ()),
       http_get_pdf = (\<lambda>url. Inl External),
       pdf_pages = (\<lambda>pdf_bytes. Inl External),
       pdf_page_open = (\<lambda>url. Inl External),
       pdf_js_fetch = (\<lambda>url. Inl External),
       pdf_download = (\<lambda>url. Inl External),
       pdf_page_close = (\<lambda>url. Inr ()) \<rparr>"

definition spaced_text :: string where
  "spaced_text = replicate 60 (CHR ''a'') @ ''  '' @ replicate 38 (CHR ''b'')"

definition spaced_web :: web where
  "spaced_web =
     offline_web \<lparr> http_get := (\<lambda>url. Inr (200, ''<html><body>news</body></html>'')),
                   article_text := (\<lambda>url html. Inr spaced_text) \<rparr>"

definition article_web :: web where
  "article_web =
     offline_web \<lparr> http_get := (\<lambda>url. Inr (200, ''<html><body>news</body></html>'')),
                   article_text := (\<lambda>url html. Inr (replicate 120 (CHR ''a''))) \<rparr>"

section \<open>News store and dedup gate (helpers.py, store.py, db.py)\<close>

text \<open>
  A news record as \<open>cmd_collect\<close> builds it: the keys the stores read (\<open>id\<close>,
  \<open>url\<close>, \<open>title\<close>, \<open>published_at\<close>) as fields, the remaining keys in \<open>other\<close>.
  \<open>filepath\<close> is the key \<open>_filepath\<close> that \<open>JSONStore._load_all\<close> adds to a
  loaded record; keys with a leading underscore are not written to disk.
\<close>

record news =
  nid :: string
  news_url :: string
  news_title :: string
  published_at :: string
  other :: pydict
  filepath :: "string option"

text \<open>
  What lies outside the repository: the MD5 digest behind \<open>generate_id\<close>, the ratio of
  \<open>difflib.SequenceMatcher\<close>, and whether the database accepts an insert (it raises
  otherwise). The ratio \<open>2M/T\<close> is a rational; comparing its float with \<open>0.75\<close> gives
  the same answer.
\<close>

record store_env =
  generate_id :: "string \<Rightarrow> string"
  matcher_ratio :: "string \<Rightarrow> string \<Rightarrow> rat"
  insert_accepted :: "news list \<Rightarrow> news \<Rightarrow> bool"

definition SIMILARITY_THRESHOLD :: rat where
  "SIMILARITY_THRESHOLD = 3 / 4"

definition similarity :: "store_env \<Rightarrow> string \<Rightarrow> string \<Rightarrow> rat" where
  "similarity env a b = matcher_ratio env (lower a) (lower b)"

text \<open>
  \<open>is_redundant_title\<close>, the same in both stores: the first stored title whose
  similarity reaches the threshold.
\<close>

definition is_redundant_title :: "store_env \<Rightarrow> string list \<Rightarrow> string \<Rightarrow> bool \<times> string option" where
  "is_redundant_title env titles t =
     (case find (\<lambda>existing. SIMILARITY_THRESHOLD \<le> similarity env t existing) titles of
        Some existing \<Rightarrow> (True, Some existing)
      | None \<Rightarrow> (False, None))"

subsection \<open>JSONStore\<close>

text \<open>
  The store is a directory of files, one record each, and a cache of the loaded
  dictionary. \<open>_load_all\<close> reads the files in the order of their names and keys the
  records by \<open>id\<close>; a later file with the same id replaces the earlier one, a record
  without id is skipped.
\<close>

record json_store =
  files :: "(string \<times> news) list"
  cache :: "(string \<times> news) list option"

definition load_files :: "(string \<times> news) list \<Rightarrow> (string \<times> news) list" where
  "load_files fs =
     foldl (\<lambda>records (fp, data).
              if nid data \<noteq> [] then AList.update (nid data) (data\<lparr>filepath := Some fp\<rparr>) records
              else records)
       [] (sort_key fst fs)"

definition load_all :: "json_store \<Rightarrow> (string \<times> news) list \<times> json_store" where
  "load_all s =
     (case cache s of
        Some records \<Rightarrow> (records, s)
      | None \<Rightarrow> (let records = load_files (files s) in (records, s\<lparr>cache := Some records\<rparr>)))"

text \<open>\<open>\\w\<close> and the file name \<open>save\<close> derives from id and title.\<close>

definition is_word_char :: "char \<Rightarrow> bool" where
  "is_word_char c =
     (let n = (of_char c :: nat) in
      (48 \<le> n \<and> n \<le> 57) \<or> (65 \<le> n \<and> n \<le> 90) \<or> (97 \<le> n \<and> n \<le> 122) \<or> n = 95
      \<or> n = 170 \<or> n = 178 \<or> n = 179 \<or> n = 181 \<or> n = 185 \<or> n = 186
      \<or> (188 \<le> n \<and> n \<le> 190) \<or> (192 \<le> n \<and> n \<le> 214) \<or> (216 \<le> n \<and> n \<le> 246)
      \<or> (248 \<le> n \<and> n \<le> 255))"

definition safe_title :: "string \<Rightarrow> string" where
  "safe_title t =
     (let kept = take 50 (filter (\<lambda>c. is_word_char c \<or> is_space c \<or> c = CHR ''-'') t);
          joined = sub_runs is_space 1 ''_'' [] kept
      in rev (dropWhile (\<lambda>c. c = CHR ''_'') (rev (dropWhile (\<lambda>c. c = CHR ''_'') joined))))"

definition file_name :: "string \<Rightarrow> string \<Rightarrow> string" where
  "file_name news_id t = news_id @ ''_'' @ safe_title t @ ''.json''"

definition json_save :: "store_env \<Rightarrow> json_store \<Rightarrow> news \<Rightarrow> bool \<times> json_store" where
  "json_save env s record =
     (let (records, s1) = load_all s in
      if news_url record \<in> set (map (news_url \<circ> snd) records) then (False, s1)
      else
        (let (records2, s2) = load_all s1 in
         if fst (is_redundant_title env (map (news_title \<circ> snd) records2) (news_title record))
         then (False, s2)
         else
           (let news_id = generate_id env (news_url record);
                save_data = record\<lparr>nid := news_id, filepath := None\<rparr>
            in (True, s2\<lparr>files := AList.update (file_name news_id (news_title record)) save_data (files s2),
                         cache := None\<rparr>))))"

definition json_get_by_id :: "json_store \<Rightarrow> string \<Rightarrow> news option \<times> json_store" where
  "json_get_by_id s news_id =
     (let (all_news, s1) = load_all s in
      case map_of all_news news_id of
        Some r \<Rightarrow> (Some r, s1)
      | None \<Rightarrow>
          (case filter (\<lambda>k. starts_with k news_id) (map fst all_news) of
             [k] \<Rightarrow> (map_of all_news k, s1)
           | _ \<Rightarrow> (None, s1)))"

subsection \<open>SupabaseDB\<close>

text \<open>
  The table \<open>news\<close> and the two caches of the client. A select is answered from the
  table; an insert is accepted by the database or raises, leaving the table as it was.
\<close>

record supa_db =
  rows :: "news list"
  urls_cache :: "string list option"
  titles_cache :: "string list option"

definition supa_get_all_urls :: "supa_db \<Rightarrow> string list \<times> supa_db" where
  "supa_get_all_urls db =
     (case urls_cache db of
        Some c \<Rightarrow> (c, db)
      | None \<Rightarrow> (let c = map news_url (rows db) in (c, db\<lparr>urls_cache := Some c\<rparr>)))"

definition supa_get_all_titles :: "supa_db \<Rightarrow> string list \<times> supa_db" where
  "supa_get_all_titles db =
     (case titles_cache db of
        Some c \<Rightarrow> (c, db)
      | None \<Rightarrow> (let c = map news_title (rows db) in (c, db\<lparr>titles_cache := Some c\<rparr>)))"

definition supa_save :: "store_env \<Rightarrow> supa_db \<Rightarrow> news \<Rightarrow> bool \<times> supa_db" where
  "supa_save env db record =
     (let (urls, db1) = supa_get_all_urls db in
      if news_url record \<in> set urls then (False, db1)
      else
        (let (titles, db2) = supa_get_all_titles db1 in
         if fst (is_redundant_title env titles (news_title record)) then (False, db2)
         else
           (let news_id = generate_id env (news_url record);
                db_record = record\<lparr>nid := news_id, filepath := None\<rparr>
            in if insert_accepted env (rows db2) db_record
               then (True, db2\<lparr>rows := rows db2 @ [db_record],
                               urls_cache := None, titles_cache := None\<rparr>)
               else (False, db2))))"

definition supa_get_by_id :: "supa_db \<Rightarrow> string \<Rightarrow> news option" where
  "supa_get_by_id db news_id =
     (case filter (\<lambda>r. nid r = news_id) (rows db) of
        r # rest \<Rightarrow> Some r
      | [] \<Rightarrow>
          (case filter (\<lambda>r. starts_with (nid r) news_id) (rows db) of
             [r] \<Rightarrow> Some r
           | _ \<Rightarrow> None))"

text \<open>
  Well-formed stores. A cache, when filled, holds what a fresh read would give. In a
  well-formed directory every record has an id and no two files share a name or an id,
  so every file is visible through \<open>_load_all\<close>.
\<close>

definition json_cache_ok :: "json_store \<Rightarrow> bool" where
  "json_cache_ok s = (case cache s of None \<Rightarrow> True | Some c \<Rightarrow> c = load_files (files s))"







text \<open>
  Example stores and records. \<open>example_env\<close> stands for some digest and some ratio and
  a database that accepts inserts; in \<open>refusing_env\<close> the database raises on insert.
\<close>

definition example_env :: store_env where
  "example_env = \<lparr> generate_id = (\<lambda>u. take 8 (rev u)),
               matcher_ratio = (\<lambda>a b. if a = b then 1 else 0),
               insert_accepted = (\<lambda>table r. True) \<rparr>"



definition empty_json :: json_store where
  "empty_json = \<lparr> files = [], cache = None \<rparr>"


section \<open>Timestamp normalisation (helpers.py)\<close>

text \<open>
  The calendar of Python's \<open>datetime\<close>: proleptic Gregorian ordinals, day 1 being
  1 January of year 1. \<open>ymd2ord\<close> and \<open>ord2ymd\<close> follow \<open>_ymd2ord\<close> and
  \<open>_ord2ymd\<close> of the standard library.
\<close>

definition is_leap :: "int \<Rightarrow> bool" where
  "is_leap y = (y mod 4 = 0 \<and> (y mod 100 \<noteq> 0 \<or> y mod 400 = 0))"

definition days_before_year :: "int \<Rightarrow> int" where
  "days_before_year y = (let y1 = y - 1 in y1 * 365 + y1 div 4 - y1 div 100 + y1 div 400)"

definition DAYS_IN_MONTH :: "int list" where
  "DAYS_IN_MONTH = [-1, 31, 28, 31, 30, 31, 30, 31, 31, 30, 31, 30, 31]"

definition DAYS_BEFORE_MONTH :: "int list" where
  "DAYS_BEFORE_MONTH = [-1, 0, 31, 59, 90, 120, 151, 181, 212, 243, 273, 304, 334]"

definition days_in_month :: "int \<Rightarrow> int \<Rightarrow> int" where
  "days_in_month y m = (if m = 2 \<and> is_leap y then 29 else DAYS_IN_MONTH ! nat m)"

definition days_before_month :: "int \<Rightarrow> int \<Rightarrow> int" where
  "days_before_month y m = DAYS_BEFORE_MONTH ! nat m + (if 2 < m \<and> is_leap y then 1 else 0)"

definition ymd2ord :: "int \<Rightarrow> int \<Rightarrow> int \<Rightarrow> int" where
  "ymd2ord y m d = days_before_year y + days_before_month y m + d"

text \<open>The month and day of the (zero-based) day n of a year.\<close>

definition month_day :: "bool \<Rightarrow> int \<Rightarrow> int \<times> int" where
  "month_day leapyear n =
     (let month = (n + 50) div 32;
          preceding = DAYS_BEFORE_MONTH ! nat month + (if 2 < month \<and> leapyear then 1 else 0)
      in if n < preceding
         then (let month1 = month - 1;
                   preceding1 = preceding
                      - (DAYS_IN_MONTH ! nat month1 + (if month1 = 2 \<and> leapyear then 1 else 0))
               in (month1, n - preceding1 + 1))
         else (month, n - preceding + 1))"

definition ord2ymd :: "int \<Rightarrow> int \<times> int \<times> int" where
  "ord2ymd n0 =
     (let n = n0 - 1;
          n400 = n div 146097; n = n mod 146097;
          n100 = n div 36524; n = n mod 36524;
          n4 = n div 1461; n = n mod 1461;
          n1 = n div 365; n = n mod 365;
          y = n400 * 400 + 1 + n100 * 100 + n4 * 4 + n1
      in if n1 = 4 \<or> n100 = 4 then (y - 1, 12, 31)
         else (let leapyear = (n1 = 3 \<and> (n4 \<noteq> 24 \<or> n100 = 3));
                   (month, d) = month_day leapyear n
               in (y, month, d)))"

text \<open>
  A \<open>datetime\<close> object. \<open>dt_tzinfo\<close> is \<open>None\<close> for a naive value and otherwise the
  UTC offset in microseconds.
\<close>

record datetime =
  dt_year :: int
  dt_month :: int
  dt_day :: int
  dt_hour :: int
  dt_minute :: int
  dt_second :: int
  dt_microsecond :: int
  dt_tzinfo :: "int option"

definition MAXORDINAL :: int where
  "MAXORDINAL = 3652059"

definition EPOCH_ORD :: int where
  "EPOCH_ORD = 719163"

text \<open>The wall-clock reading of a datetime in microseconds since the start of day 0.\<close>

definition naive_us :: "datetime \<Rightarrow> int" where
  "naive_us dt =
     (((ymd2ord (dt_year dt) (dt_month dt) (dt_day dt) * 24 + dt_hour dt) * 60
        + dt_minute dt) * 60 + dt_second dt) * 1000000 + dt_microsecond dt"


text \<open>
  The datetime of a microsecond count, as \<open>datetime\<close> arithmetic builds it; a day
  outside \<open>1..MAXORDINAL\<close> raises \<open>OverflowError\<close>.
\<close>

definition of_naive_us :: "int \<Rightarrow> int option \<Rightarrow> pyexn + datetime" where
  "of_naive_us t tz =
     (let days = t div 86400000000; rest = t mod 86400000000 in
      if 0 < days \<and> days \<le> MAXORDINAL
      then (case ord2ymd days of
              (y, m, d) \<Rightarrow>
                Inr \<lparr> dt_year = y, dt_month = m, dt_day = d,
                      dt_hour = rest div 3600000000,
                      dt_minute = rest div 60000000 mod 60,
                      dt_second = rest div 1000000 mod 60,
                      dt_microsecond = rest mod 1000000,
                      dt_tzinfo = tz \<rparr>)
      else Inl OverflowError)"

text \<open>\<open>dt.astimezone(timezone.utc)\<close> for a datetime at the given offset.\<close>

definition astimezone_utc :: "datetime \<Rightarrow> int \<Rightarrow> pyexn + datetime" where
  "astimezone_utc dt offset = of_naive_us (naive_us dt - offset) (Some 0)"

text \<open>
  \<open>datetime.fromtimestamp(ts, tz=timezone.utc)\<close> for a timestamp given in
  microseconds. The code divides an integer of milliseconds by 1000 into a float; the
  model keeps the exact value, which is what the float rounds back to for timestamps of
  this century.
\<close>

definition fromtimestamp_us :: "int \<Rightarrow> pyexn + datetime" where
  "fromtimestamp_us t = of_naive_us (EPOCH_ORD * 86400000000 + t) (Some 0)"

text \<open>\<open>calendar.timegm\<close> on the first six fields of a \<open>struct_time\<close>.\<close>

definition timegm :: "int list \<Rightarrow> pyexn + int" where
  "timegm t =
     (case t of
        [y, m, d, hh, mm, ss] \<Rightarrow>
          if 1 \<le> y \<and> y \<le> 9999 \<and> 1 \<le> m \<and> m \<le> 12
          then Inr ((((ymd2ord y m 1 - EPOCH_ORD + d - 1) * 24 + hh) * 60 + mm) * 60 + ss)
          else Inl ValueError
      | _ \<Rightarrow> Inl ValueError)"

fun struct_time :: "pyval \<Rightarrow> int list option" where
  "struct_time (PList vs) =
     (if 6 \<le> length vs \<and> list_all (\<lambda>v. case v of PInt i \<Rightarrow> True | _ \<Rightarrow> False) (take 6 vs)
      then Some (map (\<lambda>v. case v of PInt i \<Rightarrow> i | _ \<Rightarrow> 0) (take 6 vs))
      else None)"
| "struct_time v = None"

text \<open>Zero-padded decimals (\<open>%02d\<close>, \<open>%04d\<close>, \<open>%06d\<close>) and \<open>isoformat()\<close>.\<close>

definition digit_char :: "int \<Rightarrow> char" where
  "digit_char n = char_of (48 + nat (n mod 10))"

definition pad :: "nat \<Rightarrow> int \<Rightarrow> string" where
  "pad w n = map (\<lambda>i. digit_char (n div 10 ^ i)) (rev [0..<w])"

definition format_offset :: "int \<Rightarrow> string" where
  "format_offset offset =
     (let a = \<bar>offset\<bar>;
          hh = a div 3600000000; mm = a div 60000000 mod 60;
          ss = a div 1000000 mod 60; us = a mod 1000000
      in (if offset < 0 then ''-'' else ''+'') @ pad 2 hh @ '':'' @ pad 2 mm
         @ (if ss \<noteq> 0 \<or> us \<noteq> 0 then '':'' @ pad 2 ss else [])
         @ (if us \<noteq> 0 then ''.'' @ pad 6 us else []))"

definition isoformat :: "datetime \<Rightarrow> string" where
  "isoformat dt =
     pad 4 (dt_year dt) @ ''-'' @ pad 2 (dt_month dt) @ ''-'' @ pad 2 (dt_day dt) @ ''T''
     @ pad 2 (dt_hour dt) @ '':'' @ pad 2 (dt_minute dt) @ '':'' @ pad 2 (dt_second dt)
     @ (if dt_microsecond dt \<noteq> 0 then ''.'' @ pad 6 (dt_microsecond dt) else [])
     @ (case dt_tzinfo dt of None \<Rightarrow> [] | Some offset \<Rightarrow> format_offset offset)"

text \<open>
  \<open>re.search(r"/Date\\((\\d+)\\)/", raw)\<close> and \<open>int\<close> of its group: the leftmost
  place where the pattern matches.
\<close>

definition is_digit :: "char \<Rightarrow> bool" where
  "is_digit c = (let n = (of_char c :: nat) in 48 \<le> n \<and> n \<le> 57)"

definition int_of_digits :: "string \<Rightarrow> int" where
  "int_of_digits ds = foldl (\<lambda>acc c. 10 * acc + (int (of_char c) - 48)) 0 ds"

definition match_epoch :: "string \<Rightarrow> int option" where
  "match_epoch s =
     (if starts_with s ''/Date(''
      then (let ds = takeWhile is_digit (drop 6 s); rest = dropWhile is_digit (drop 6 s)
            in if ds \<noteq> [] \<and> starts_with rest '')/'' then Some (int_of_digits ds) else None)
      else None)"

fun find_epoch :: "string \<Rightarrow> int option" where
  "find_epoch [] = None"
| "find_epoch (c # cs) =
     (case match_epoch (c # cs) of Some ms \<Rightarrow> Some ms | None \<Rightarrow> find_epoch cs)"

text \<open>
  Outside the repository: the clock (\<open>datetime.now(timezone.utc)\<close>), \<open>dateutil\<close>'s
  parser and \<open>datetime.strptime\<close>, each giving a datetime or the exception it raises.
\<close>

record date_env =
  now_utc :: datetime
  dateutil_parse :: "string \<Rightarrow> pyexn + datetime"
  strptime :: "string \<Rightarrow> string \<Rightarrow> pyexn + datetime"

definition FORMATS :: "string list" where
  "FORMATS =
     [''%Y-%m-%d %H:%M:%S'', ''%Y-%m-%dT%H:%M:%S%z'', ''%Y-%m-%dT%H:%M:%SZ'',
      ''%Y-%m-%dT%H:%M:%S'', ''%d %b %Y %H:%M:%S'']"

fun try_formats :: "date_env \<Rightarrow> string \<Rightarrow> string list \<Rightarrow> pyexn + datetime option" where
  "try_formats env raw [] = Inr None"
| "try_formats env raw (fmt # fmts) =
     (case strptime env (strip raw) fmt of
        Inr dt \<Rightarrow> Inr (Some dt)
      | Inl ValueError \<Rightarrow> try_formats env raw fmts
      | Inl e \<Rightarrow> Inl e)"

text \<open>
  The section "PARSING STRING": \<open>dateutil\<close> first, whose \<open>ValueError\<close> and
  \<open>TypeError\<close> are swallowed, then the list of formats. \<open>Inr None\<close> means no parser
  read the string.
\<close>

definition parse_string :: "date_env \<Rightarrow> string \<Rightarrow> pyexn + datetime option" where
  "parse_string env raw =
     (case dateutil_parse env raw of
        Inr dt \<Rightarrow> Inr (Some dt)
      | Inl ValueError \<Rightarrow> try_formats env raw FORMATS
      | Inl TypeError \<Rightarrow> try_formats env raw FORMATS
      | Inl e \<Rightarrow> Inl e)"

definition WIB :: int where
  "WIB = 7 * 3600000000"

definition assumes_wib :: "string \<Rightarrow> bool" where
  "assumes_wib source_type = (source_type = ''idx_api'' \<or> source_type = ''stockbit_api'')"

text \<open>
  The timezone logic at the end of \<open>parse_published_date\<close>. For a naive datetime of
  another source the code attaches \<open>timezone.utc\<close> and converts to that same object,
  which returns the datetime as it is.
\<close>

definition normalise :: "datetime \<Rightarrow> string \<Rightarrow> pyexn + string" where
  "normalise dt source_type =
     (case dt_tzinfo dt of
        Some offset \<Rightarrow> map_sum id isoformat (astimezone_utc dt offset)
      | None \<Rightarrow>
          if assumes_wib source_type
          then map_sum id isoformat (astimezone_utc (dt\<lparr>dt_tzinfo := Some WIB\<rparr>) WIB)
          else Inr (isoformat (dt\<lparr>dt_tzinfo := Some 0\<rparr>)))"

definition raw_timestamp :: "pydict \<Rightarrow> string \<Rightarrow> pyval" where
  "raw_timestamp entry source_type =
     (if source_type = ''stockbit_api'' then dict_get_or entry ''created'' (PStr [])
      else (let published = dict_get_or entry ''published'' (PStr [])
            in if truthy published then published
               else dict_get_or entry ''updated'' (PStr [])))"

definition has_published_parsed :: "pydict \<Rightarrow> bool" where
  "has_published_parsed entry =
     (case map_of entry ''published_parsed'' of None \<Rightarrow> False | Some v \<Rightarrow> truthy v)"

definition parse_published_date :: "date_env \<Rightarrow> pydict \<Rightarrow> string \<Rightarrow> pyexn + string" where
  "parse_published_date env entry source_type =
     (let raw = raw_timestamp entry source_type in
      if has_published_parsed entry then
        (case struct_time (dict_get entry ''published_parsed'') of
           None \<Rightarrow> Inl TypeError
         | Some t \<Rightarrow>
             (case timegm t of
                Inl e \<Rightarrow> Inl e
              | Inr ts \<Rightarrow> map_sum id isoformat (fromtimestamp_us (ts * 1000000))))
      else if \<not> truthy raw \<or> raw = PStr ''0000-00-00 00:00:00''
      then Inr (isoformat (now_utc env))
      else
        (case raw of
           PStr raw_str \<Rightarrow>
             (case (if source_type = ''idx_api'' then find_epoch raw_str else None) of
                Some ms \<Rightarrow> map_sum id isoformat (fromtimestamp_us (ms * 1000))
              | None \<Rightarrow>
                  (case parse_string env raw_str of
                     Inl e \<Rightarrow> Inl e
                   | Inr None \<Rightarrow> Inr (isoformat (now_utc env))
                   | Inr (Some dt) \<Rightarrow> normalise dt source_type))
         | _ \<Rightarrow> Inl TypeError))"


text \<open>
  An example environment: a parser that reads the two timestamps of the specification
  the way \<open>dateutil\<close> does, and fails on anything else.
\<close>

definition example_dates :: date_env where
  "example_dates =
     \<lparr> now_utc = \<lparr> dt_year = 2024, dt_month = 5, dt_day = 2, dt_hour = 0, dt_minute = 0,
                   dt_second = 0, dt_microsecond = 0, dt_tzinfo = Some 0 \<rparr>,
       dateutil_parse =
         (\<lambda>raw. if raw = ''2024-05-01T10:00:00+07:00''
                then Inr \<lparr> dt_year = 2024, dt_month = 5, dt_day = 1, dt_hour = 10,
                           dt_minute = 0, dt_second = 0, dt_microsecond = 0,
                           dt_tzinfo = Some WIB \<rparr>
                else if raw = ''2024-05-01 10:00:00''
                then Inr \<lparr> dt_year = 2024, dt_month = 5, dt_day = 1, dt_hour = 10,
                           dt_minute = 0, dt_second = 0, dt_microsecond = 0,
                           dt_tzinfo = None \<rparr>
                else Inl ValueError),
       strptime = (\<lambda>raw fmt. Inl ValueError) \<rparr>"

section \<open>Collection cycle (commands.py, state.py)\<close>

text \<open>
  A source descriptor, and the watermark state: a dictionary from \<open>str(source id)\<close> to
  the watermark entry of that source.
\<close>

record source =
  src_id :: int
  src_name :: string
  src_feed_url :: string
  src_type :: string
  src_category :: string

type_synonym pipeline_state = "string \<Rightarrow> pydict option"

fun str_nat :: "nat \<Rightarrow> string" where
  "str_nat n =
     (if n < 10 then [char_of (48 + n)] else str_nat (n div 10) @ [char_of (48 + n mod 10)])"

definition str_int :: "int \<Rightarrow> string" where
  "str_int i = (if i < 0 then ''-'' @ str_nat (nat (- i)) else str_nat (nat i))"

definition sid :: "source \<Rightarrow> string" where
  "sid src = str_int (src_id src)"

text \<open>
  The store behind \<open>get_store()\<close> is one of the two backends. The cycle's environment
  holds the three feed adapters (each returns the entries or raises), the classifier, the
  date environment, \<open>extract_rss_summary\<close> and the parameters of the store.
\<close>

datatype store = JStore json_store | SStore supa_db

record cycle_env =
  fetch_idx_announcements :: "string \<Rightarrow> pyexn + pydict list"
  fetch_stockbit_news :: "string \<Rightarrow> pyexn + pydict list"
  parse_feed :: "string \<Rightarrow> pyexn + pydict list"
  classifier :: "nat \<Rightarrow> pyexn + pyval"
  dates :: date_env
  extract_rss_summary :: "pydict \<Rightarrow> string"
  store_params :: store_env

definition store_save :: "store_env \<Rightarrow> store \<Rightarrow> news \<Rightarrow> bool \<times> store" where
  "store_save env st record =
     (case st of
        JStore s \<Rightarrow> (let (ok, s1) = json_save env s record in (ok, JStore s1))
      | SStore db \<Rightarrow> (let (ok, db1) = supa_save env db record in (ok, SStore db1)))"

definition store_get_by_id :: "store \<Rightarrow> string \<Rightarrow> news option \<times> store" where
  "store_get_by_id st news_id =
     (case st of
        JStore s \<Rightarrow> (let (r, s1) = json_get_by_id s news_id in (r, JStore s1))
      | SStore db \<Rightarrow> (supa_get_by_id db news_id, SStore db))"

subsection \<open>Scanning the sources\<close>

definition fetch :: "cycle_env \<Rightarrow> source \<Rightarrow> pyexn + pydict list" where
  "fetch env src =
     (if src_type src = ''idx_api'' then fetch_idx_announcements env (src_feed_url src)
      else if src_type src = ''stockbit_api'' then fetch_stockbit_news env (src_feed_url src)
      else parse_feed env (src_feed_url src))"

text \<open>
  \<open>state.get(sid, {}).get("last_top_link")\<close>; a stored link is a string or \<open>None\<close>.
\<close>

definition stored_link :: "pipeline_state \<Rightarrow> string \<Rightarrow> string option" where
  "stored_link state k =
     (case state k of
        None \<Rightarrow> None
      | Some d \<Rightarrow> (case dict_get d ''last_top_link'' of PStr l \<Rightarrow> Some l | _ \<Rightarrow> None))"

text \<open>
  The first loop of \<open>cmd_collect\<close>: a source whose fetch raises, returns nothing, or
  brings nothing new is skipped; the others are collected in \<open>all_new\<close> with their new
  entries and their top link.
\<close>

fun scan_sources ::
  "cycle_env \<Rightarrow> pipeline_state \<Rightarrow> source list \<Rightarrow> (source \<times> pydict list \<times> pyval) list" where
  "scan_sources env state [] = []"
| "scan_sources env state (src # rest) =
     (case fetch env src of
        Inl e \<Rightarrow> scan_sources env state rest
      | Inr entries \<Rightarrow>
          if entries = [] then scan_sources env state rest
          else (let (new_entries, top_link) = get_new_entries entries (stored_link state (sid src))
                in if new_entries = [] then scan_sources env state rest
                   else (src, new_entries, top_link) # scan_sources env state rest))"

subsection \<open>Parsing the entries\<close>

definition parse_entry :: "cycle_env \<Rightarrow> source \<Rightarrow> pydict \<Rightarrow> pyexn + pydict option" where
  "parse_entry env src entry =
     (let link = dict_get entry ''link'';
          url = (if truthy link then link else dict_get_or entry ''titleurl'' (PStr []))
      in if \<not> truthy url then Inr None
         else (case parse_published_date (dates env) entry (src_type src) of
                 Inl e \<Rightarrow> Inl e
               | Inr published \<Rightarrow>
                   Inr (Some
                     [(''title'', dict_get_or entry ''title'' (PStr [])),
                      (''url'', url),
                      (''published_at'', PStr published),
                      (''source_id'', PInt (src_id src)),
                      (''source_name'', PStr (src_name src)),
                      (''source_type'', PStr (src_type src)),
                      (''_rss_summary'', PStr (extract_rss_summary env entry)),
                      (''_source_name'', PStr (src_name src)),
                      (''_source_category'', PStr (src_category src)),
                      (''_emiten'', dict_get_or entry ''_emiten'' (PStr [])),
                      (''_attachments'', dict_get_or entry ''_attachments'' (PList [])),
                      (''_no_pengumuman'', dict_get_or entry ''_no_pengumuman'' (PStr [])),
                      (''_jenis'', dict_get_or entry ''_jenis'' (PStr [])),
                      (''_perihal'', dict_get_or entry ''_perihal'' (PStr [])),
                      (''_sb_postid'', dict_get_or entry ''id'' (PStr [])),
                      (''_sb_content'', dict_get_or entry ''content'' (PStr [])),
                      (''_sb_created'', dict_get_or entry ''created'' (PStr []))])))"

fun parse_entries :: "cycle_env \<Rightarrow> source \<Rightarrow> pydict list \<Rightarrow> pyexn + pydict list" where
  "parse_entries env src [] = Inr []"
| "parse_entries env src (entry # rest) =
     (case parse_entry env src entry of
        Inl e \<Rightarrow> Inl e
      | Inr p \<Rightarrow>
          (case parse_entries env src rest of
             Inl e \<Rightarrow> Inl e
           | Inr ps \<Rightarrow> Inr (case p of None \<Rightarrow> ps | Some d \<Rightarrow> d # ps)))"

fun parse_sources ::
  "cycle_env \<Rightarrow> (source \<times> pydict list \<times> pyval) list \<Rightarrow> pyexn + pydict list" where
  "parse_sources env [] = Inr []"
| "parse_sources env ((src, entries, top_link) # rest) =
     (case parse_entries env src entries of
        Inl e \<Rightarrow> Inl e
      | Inr ps \<Rightarrow>
          (case parse_sources env rest of Inl e \<Rightarrow> Inl e | Inr qs \<Rightarrow> Inr (ps @ qs)))"

subsection \<open>Classifying in batches and sorting\<close>

text \<open>
  The parsed entries are fresh dictionary objects; entry \<open>i\<close> lives at address \<open>i\<close>.
  \<open>for i in range(0, len(parsed), 20): batch = parsed[i : i + 20]\<close>.
\<close>

definition heap_of :: "pydict list \<Rightarrow> heap" where
  "heap_of parsed = (\<lambda>a. if a < length parsed then parsed ! a else [])"

definition batches :: "addr list \<Rightarrow> addr list list" where
  "batches parsed = map (\<lambda>i. take 20 (drop (i * 20) parsed)) [0..<(length parsed + 19) div 20]"

fun filter_batches ::
  "(nat \<Rightarrow> pyexn + pyval) \<Rightarrow> nat \<Rightarrow> addr list list \<Rightarrow> heap \<Rightarrow> addr list \<times> heap \<times> nat" where
  "filter_batches llm calls [] h = ([], h, calls)"
| "filter_batches llm calls (batch # rest) h =
     (let (result, h1, calls1) = filter_news_batch llm calls batch h;
          (results, h2, calls2) = filter_batches llm calls1 rest h1
      in (result @ results, h2, calls2))"

text \<open>
  \<open>relevant.sort(key=lambda x: x.get("published_at", "") or "", reverse=True)\<close>: a
  stable sort on the ISO text, newest first; strings compare by code point. The publish
  time of a parsed entry is always a string.
\<close>

definition sort_field :: "pydict \<Rightarrow> string" where
  "sort_field entry =
     (case dict_get_or entry ''published_at'' (PStr []) of PStr p \<Rightarrow> p | _ \<Rightarrow> [])"

definition sort_newest_first :: "heap \<Rightarrow> addr list \<Rightarrow> addr list" where
  "sort_newest_first h relevant = rev (sort_key (\<lambda>a. sort_field (h a)) (rev relevant))"

subsection \<open>Storing\<close>

text \<open>
  The record built for one relevant entry. For a financial report the URL is the one of
  the first attachment that is not a supplement. Of the keys of the record, \<open>other\<close>
  holds those that come from the classifier and the source; the constant keys
  (\<open>status\<close>, \<open>analysis\<close>, \<open>analyzed_at\<close>), \<open>ticker\<close> and \<open>collected_at\<close> are read by
  no operation below and are left out.
\<close>

definition str_of :: "pyval \<Rightarrow> string" where
  "str_of v = (case v of PStr x \<Rightarrow> x | _ \<Rightarrow> [])"

fun first_primary :: "pyval list \<Rightarrow> string \<Rightarrow> pyexn + string" where
  "first_primary [] url = Inr url"
| "first_primary (att # rest) url =
     (case att of
        PDict a \<Rightarrow>
          if \<not> truthy (dict_get_or a ''is_lampiran'' (PBool False))
          then (case map_of a ''url'' of
                  None \<Rightarrow> Inl KeyError
                | Some u \<Rightarrow> Inr (str_of u))
          else first_primary rest url
      | _ \<Rightarrow> Inl AttributeError)"

definition build_record :: "pydict \<Rightarrow> pyexn + news" where
  "build_record entry =
     (let cat = dict_get_or entry ''_filter_category''
                  (dict_get_or entry ''_source_category'' (PStr ''Market''));
          sentiment = dict_get_or entry ''_filter_sentiment'' (PStr ''neutral'');
          sub_category = dict_get entry ''_filter_sub_category'';
          url0 = str_of (dict_get entry ''url'');
          url1 = (if truthy (dict_get entry ''_is_lapkeu'')
                  then (case dict_get_or entry ''_attachments'' (PList []) of
                          PList attachments \<Rightarrow> first_primary attachments url0
                        | _ \<Rightarrow> Inl TypeError)
                  else Inr url0)
      in case url1 of
           Inl e \<Rightarrow> Inl e
         | Inr u \<Rightarrow>
             Inr \<lparr> nid = [], news_url = u, news_title = str_of (dict_get entry ''title''),
                   published_at = str_of (dict_get entry ''published_at''),
                   other =
                     [(''source_id'', dict_get entry ''source_id''),
                      (''source_name'', dict_get entry ''source_name''),
                      (''source_type'', dict_get entry ''source_type''),
                      (''category'', cat), (''sentiment'', sentiment),
                      (''filter_reason'', dict_get_or entry ''_filter_reason'' (PStr [])),
                      (''rss_summary'', dict_get_or entry ''_rss_summary'' (PStr []))]
                     @ (if truthy sub_category then [(''sub_category'', sub_category)] else []),
                   filepath = None \<rparr>)"

text \<open>
  The storing loop. It returns the exception that ended it (if any), the store, and for
  every record that \<open>save\<close> accepted the record as written (with its id) together with
  what \<open>store.get_by_id(generate_id(entry["url"]))\<close> returned right after.
\<close>

fun store_all ::
  "store_env \<Rightarrow> heap \<Rightarrow> addr list \<Rightarrow> store \<Rightarrow> pyexn option \<times> store \<times> (news \<times> news option) list" where
  "store_all env h [] st = (None, st, [])"
| "store_all env h (a # rest) st =
     (case build_record (h a) of
        Inl e \<Rightarrow> (Some e, st, [])
      | Inr record \<Rightarrow>
          (case store_save env st record of
             (False, st1) \<Rightarrow> store_all env h rest st1
           | (True, st1) \<Rightarrow>
               (let (saved, st2) =
                      store_get_by_id st1 (generate_id env (str_of (dict_get (h a) ''url'')));
                    (err, st3, lk) = store_all env h rest st2
                in (err, st3,
                    (record\<lparr>nid := generate_id env (news_url record)\<rparr>, saved) # lk))))"

definition inserted_records :: "(news \<times> news option) list \<Rightarrow> news list" where
  "inserted_records lk = concat (map (\<lambda>(record, saved). case saved of None \<Rightarrow> [] | Some r \<Rightarrow> [r]) lk)"

subsection \<open>Watermarks and the whole cycle\<close>

fun update_state ::
  "string \<Rightarrow> pipeline_state \<Rightarrow> (source \<times> pydict list \<times> pyval) list \<Rightarrow> pipeline_state" where
  "update_state now state [] = state"
| "update_state now state ((src, entries, top_link) # rest) =
     update_state now
       (state(sid src \<mapsto> [(''last_top_link'', top_link), (''last_scraped_at'', PStr now),
                          (''name'', PStr (src_name src))]))
       rest"

text \<open>
  What a run of \<open>cmd_collect\<close> leaves behind: the exception that aborted it (if any),
  the store, the accepted records with their lookups, the lists handed to
  \<open>notify_new_articles\<close>, and the states handed to \<open>save_state\<close>, in call order.
\<close>

record cycle_result =
  raised :: "pyexn option"
  final_store :: store
  lookups :: "(news \<times> news option) list"
  notified :: "news list list"
  state_saves :: "pipeline_state list"


definition cmd_collect ::
  "cycle_env \<Rightarrow> pipeline_state \<Rightarrow> store \<Rightarrow> source list \<Rightarrow> cycle_result" where
  "cmd_collect env state st sources =
     (let all_new = scan_sources env state sources in
      if all_new = []
      then \<lparr> raised = None, final_store = st, lookups = [], notified = [], state_saves = [] \<rparr>
      else
        (case parse_sources env all_new of
           Inl e \<Rightarrow>
             \<lparr> raised = Some e, final_store = st, lookups = [], notified = [],
               state_saves = [] \<rparr>
         | Inr parsed \<Rightarrow>
             (let (relevant, h, calls) =
                    filter_batches (classifier env) 0 (batches [0..<length parsed]) (heap_of parsed);
                  ordered = sort_newest_first h relevant
              in case store_all (store_params env) h ordered st of
                   (Some e, st1, lk) \<Rightarrow>
                     \<lparr> raised = Some e, final_store = st1, lookups = lk, notified = [],
                       state_saves = [] \<rparr>
                 | (None, st1, lk) \<Rightarrow>
                     \<lparr> raised = None, final_store = st1, lookups = lk,
                       notified = (if inserted_records lk = [] then []
                                   else [inserted_records lk]),
                       state_saves =
                         [update_state (isoformat (now_utc (dates env))) state all_new] \<rparr>)))"



text \<open>
  An example cycle: two RSS sources with one entry each (the older entry in the first
  source) and a social-API source whose fetch raises; the classifier is unreachable, so
  every entry passes. In \<open>seen_state\<close> every source already has the first feed's top
  link as its watermark.
\<close>

definition src_a :: source where
  "src_a = \<lparr> src_id = 1, src_name = ''Feed A'', src_feed_url = ''https://a.example/rss'',
              src_type = ''rss'', src_category = ''Market'' \<rparr>"

definition src_s :: source where
  "src_s = \<lparr> src_id = 2, src_name = ''Stockbit'', src_feed_url = ''https://s.example/api'',
              src_type = ''stockbit_api'', src_category = ''Market'' \<rparr>"

definition src_b :: source where
  "src_b = \<lparr> src_id = 3, src_name = ''Feed B'', src_feed_url = ''https://b.example/rss'',
              src_type = ''rss'', src_category = ''Macro'' \<rparr>"

definition example_cycle :: cycle_env where
  "example_cycle =
     \<lparr> fetch_idx_announcements = (\<lambda>u. Inl External),
       fetch_stockbit_news = (\<lambda>u. Inl External),
       parse_feed =
         (\<lambda>u. if u = ''https://a.example/rss''
              then Inr [[(''link'', PStr ''https://a.example/1''), (''title'', PStr ''IHSG naik''),
                         (''published'', PStr ''2024-05-01T10:00:00+07:00'')]]
              else Inr [[(''link'', PStr ''https://b.example/1''), (''title'', PStr ''BI rate''),
                         (''published'', PStr ''2024-05-01 10:00:00'')]]),
       classifier = (\<lambda>n. Inl External),
       dates = example_dates,
       extract_rss_summary = (\<lambda>entry. []),
       store_params = example_env \<rparr>"

definition seen_state :: pipeline_state where
  "seen_state = (\<lambda>k. Some [(''last_top_link'', PStr ''https://a.example/1'')])"

section \<open>Properties of the watermark diff\<close>

lemma scan_new_takeWhile:
  "scan_new es l = takeWhile (\<lambda>e. dict_get e ''link'' \<noteq> PStr l) es"
  by (induction es) auto

text \<open>
  Claim C1, as the code has it: on a non-empty list, a missing or empty watermark
  returns every entry; a non-empty watermark equal to the top link returns none; any other
  non-empty watermark returns the entries strictly before the first one carrying it, which
  is the whole list when no entry carries it; and the returned watermark is always the top
  entry's link.
\<close>

theorem get_new_entries_spec:
  assumes "entries \<noteq> []"
  shows "snd (get_new_entries entries wm) = dict_get (hd entries) ''link''
    \<and> (no_watermark wm \<longrightarrow> fst (get_new_entries entries wm) = entries)
    \<and> (\<forall>l. wm = Some l \<and> l \<noteq> [] \<longrightarrow>
          (dict_get (hd entries) ''link'' = PStr l \<longrightarrow> fst (get_new_entries entries wm) = [])
        \<and> fst (get_new_entries entries wm)
            = takeWhile (\<lambda>e. dict_get e ''link'' \<noteq> PStr l) entries
        \<and> (list_all (\<lambda>e. dict_get e ''link'' \<noteq> PStr l) entries
             \<longrightarrow> fst (get_new_entries entries wm) = entries))"
proof -
  obtain e0 rest where es: "entries = e0 # rest"
    using assms by (cases entries) auto
  have top: "snd (get_new_entries entries wm) = dict_get (hd entries) ''link''"
    by (simp add: es Let_def)
  have boot: "no_watermark wm \<longrightarrow> fst (get_new_entries entries wm) = entries"
    by (simp add: es Let_def)
  have rest: "(dict_get (hd entries) ''link'' = PStr l \<longrightarrow> fst (get_new_entries entries wm) = [])
        \<and> fst (get_new_entries entries wm)
            = takeWhile (\<lambda>e. dict_get e ''link'' \<noteq> PStr l) entries
        \<and> (list_all (\<lambda>e. dict_get e ''link'' \<noteq> PStr l) entries
             \<longrightarrow> fst (get_new_entries entries wm) = entries)"
    if "wm = Some l" "l \<noteq> []" for l
  proof -
    have tw: "fst (get_new_entries entries wm)
            = takeWhile (\<lambda>e. dict_get e ''link'' \<noteq> PStr l) entries"
      using that
      by (simp add: es Let_def no_watermark_def scan_new_takeWhile del: scan_new.simps)
    show ?thesis
      using tw by (auto simp: es list_all_iff)
  qed
  show ?thesis
    using top boot rest by blast
qed

text \<open>
  A stored watermark, an unseen top entry, and the known entry behind it: only the new
  top entry is returned, and the watermark moves to its link.
\<close>

theorem get_new_entries_spec_witness:
  "get_new_entries
     [[(''link'', PStr ''e0'')], [(''link'', PStr ''e1'')], [(''link'', PStr ''e2'')]]
     (Some ''e1'')
   = ([[(''link'', PStr ''e0'')]], PStr ''e0'')"
  using get_new_entries_spec
    [of "[[(''link'', PStr ''e0'')], [(''link'', PStr ''e1'')], [(''link'', PStr ''e2'')]]"
        "Some ''e1''"]
  by (simp add: dict_get_def prod_eq_iff)

text \<open>
  The claim as written fails for the empty-string watermark: with the top entry's link
  equal to it, the code still returns every entry, because \<open>not last_top_link\<close> is true
  for the empty string.
\<close>

theorem get_new_entries_empty_watermark:
  "dict_get [(''link'', PStr [])] ''link'' = PStr []
   \<and> get_new_entries [[(''link'', PStr [])]] (Some [])
       = ([[(''link'', PStr [])]], PStr [])"
  by (simp add: dict_get_def no_watermark_def)

section \<open>Properties of the relevance filter\<close>

lemma filter_item_entry:
  "filter_item is_idx entries r h = (h', Inr (Some a)) \<Longrightarrow> a \<in> set entries"
  unfolding filter_item_def
  by (auto simp: Let_def split: sum.splits if_splits pynum.splits prod.splits)

lemma run_filter_loop_subset:
  "run_filter_loop is_idx entries rs rel h = (h', Inr out) \<Longrightarrow> set rel \<subseteq> set entries
     \<Longrightarrow> set out \<subseteq> set entries"
proof (induction rs arbitrary: rel h)
  case Nil
  then show ?case by simp
next
  case (Cons r rs)
  show ?case
  proof (cases r)
    case (PDict rd)
    obtain h1 res where fi: "filter_item is_idx entries rd h = (h1, res)"
      by (cases "filter_item is_idx entries rd h")
    show ?thesis
    proof (cases res)
      case (Inl e)
      with Cons.prems fi PDict show ?thesis by simp
    next
      case (Inr sel)
      show ?thesis
      proof (cases sel)
        case None
        with Cons.prems fi PDict Inr Cons.IH show ?thesis by simp
      next
        case (Some a)
        have "a \<in> set entries"
          using fi Inr Some filter_item_entry by blast
        with Cons.prems fi PDict Inr Some Cons.IH [of "rel @ [a]" h1] show ?thesis by simp
      qed
    qed
  qed (use Cons in auto)
qed

lemma run_filter_subset: "set (fst (run_filter resp entries is_idx h)) \<subseteq> set entries"
proof -
  have loop: "set (fst (case run_filter_loop is_idx entries rs [] h of
                  (h1, Inl e) \<Rightarrow> (entries, h1)
                | (h1, Inr relevant) \<Rightarrow> (relevant, h1))) \<subseteq> set entries" for rs
  proof (cases "run_filter_loop is_idx entries rs [] h")
    case (Pair h1 res)
    then show ?thesis
      using run_filter_loop_subset [of is_idx entries rs "[]" h h1]
      by (cases res) auto
  qed
  show ?thesis
    unfolding run_filter_def
    using loop by (auto split: sum.splits pyval.splits simp del: run_filter_loop.simps)
qed

lemma run_filter_filter_subset:
  "run_filter r (filter P entries) b h' = (out, h'') \<Longrightarrow> x \<in> set out \<Longrightarrow> x \<in> set entries"
  using run_filter_subset [of r "filter P entries" b h'] by auto

lemma filter_news_batch_subset:
  "set (fst (filter_news_batch groq calls entries h)) \<subseteq> set entries"
  unfolding filter_news_batch_def
  by (auto simp: Let_def split: prod.splits if_splits dest: run_filter_filter_subset)

lemma run_filter_nonlist:
  "nonlist_results resp \<Longrightarrow> run_filter resp entries is_idx h = (entries, h)"
proof -
  assume nl: "nonlist_results resp"
  then obtain data v where r: "resp = Inr (PDict data)" "map_of data ''results'' = Some v"
      "\<not> is_list v"
    unfolding nonlist_results_def
    by (auto split: sum.splits pyval.splits option.splits)
  show ?thesis
    using r unfolding run_filter_def dict_get_or_def by (cases v) auto
qed

lemma run_filter_falls_back:
  "falls_back resp entries is_idx h \<Longrightarrow> fst (run_filter resp entries is_idx h) = entries"
  unfolding falls_back_def run_filter_def
  by (auto split: sum.splits pyval.splits prod.splits simp: isl_def
           simp del: run_filter_loop.simps)

lemma filter_news_batch_nonlist:
  assumes "\<And>n. nonlist_results (groq n)"
  shows "filter_news_batch groq calls entries h
         = (filter (\<lambda>e. \<not> is_idx_entry h e) entries @ filter (is_idx_entry h) entries, h,
            calls + (if filter (\<lambda>e. \<not> is_idx_entry h e) entries = [] then 0 else 1)
                  + (if filter (is_idx_entry h) entries = [] then 0 else 1))"
proof (cases "entries = []")
  case True
  then show ?thesis by (simp add: filter_news_batch_def)
next
  case False
  then show ?thesis
    by (simp add: filter_news_batch_def Let_def run_filter_nonlist [OF assms])
qed

text \<open>
  Claim C4: when the classifier's response carries a \<open>results\<close> field that is not a
  list, \<open>_run_filter\<close> returns the submitted batch itself and annotates nothing; and when
  every response of a cycle has that shape, the router \<open>filter_news_batch\<close> returns each
  entry of its batch exactly once, none dropped.
\<close>

theorem classifier_shape_defense:
  "(nonlist_results resp \<longrightarrow> run_filter resp entries is_idx h = (entries, h))
   \<and> ((\<forall>n. nonlist_results (groq n)) \<longrightarrow>
        mset (fst (filter_news_batch groq calls entries h)) = mset entries
        \<and> fst (snd (filter_news_batch groq calls entries h)) = h)"
proof -
  have "mset (filter (\<lambda>e. \<not> is_idx_entry h e) entries @ filter (is_idx_entry h) entries)
        = mset entries"
    by (induction entries) auto
  then show ?thesis
    using run_filter_nonlist filter_news_batch_nonlist [of groq calls entries h]
    by auto
qed

theorem classifier_shape_defense_witness:
  "nonlist_results (Inr (PDict [(''results'', PStr ''none'')]))
   \<and> run_filter (Inr (PDict [(''results'', PStr ''none'')])) [0, 1, 2] False (\<lambda>a. [])
       = ([0, 1, 2], \<lambda>a. [])"
  using classifier_shape_defense
    [of "Inr (PDict [(''results'', PStr ''none'')])" "[0, 1, 2]" False "\<lambda>a. []"]
  by (simp add: nonlist_results_def)

text \<open>
  Claim C10: whatever the classifier answers, every element of the list the relevance
  filter returns is an element of its input list, for the router and for
  \<open>_run_filter\<close> alike; and whenever \<open>_run_filter\<close> falls back on a malformed response
  it returns exactly its input list.
\<close>

theorem filter_only_selects:
  "set (fst (filter_news_batch groq calls entries h)) \<subseteq> set entries
   \<and> set (fst (run_filter resp entries is_idx h)) \<subseteq> set entries
   \<and> (falls_back resp entries is_idx h \<longrightarrow> fst (run_filter resp entries is_idx h) = entries)"
  using filter_news_batch_subset run_filter_subset run_filter_falls_back by blast

text \<open>
  A response that marks the second of three entries relevant, then names an index as a
  string: the first result is applied (the store is written), the second raises, and the
  whole batch comes back.
\<close>

theorem filter_only_selects_witness:
  "falls_back
     (Inr (PDict [(''results'', PList
        [PDict [(''index'', PInt 2), (''relevant'', PBool True)],
         PDict [(''index'', PStr ''3''), (''relevant'', PBool True)]])]))
     [10, 11, 12] False (\<lambda>a. [])
   \<and> fst (run_filter
     (Inr (PDict [(''results'', PList
        [PDict [(''index'', PInt 2), (''relevant'', PBool True)],
         PDict [(''index'', PStr ''3''), (''relevant'', PBool True)]])]))
     [10, 11, 12] False (\<lambda>a. [])) = [10, 11, 12]"
  using filter_only_selects
    [of "\<lambda>n. Inl External" 0 "[10, 11, 12]" "\<lambda>a. []"
        "Inr (PDict [(''results'', PList
        [PDict [(''index'', PInt 2), (''relevant'', PBool True)],
         PDict [(''index'', PStr ''3''), (''relevant'', PBool True)]])])" False]
  by (simp add: falls_back_def dict_get_or_def filter_item_def annotate_category_def
        annotate_sentiment_def in_frozenset_def VALID_CATEGORIES_def VALID_SENTIMENTS_def
        Let_def)

section \<open>Properties of the extraction cascade\<close>

lemma extract_html_article:
  "article_text w url html = Inr t \<Longrightarrow> MIN_CONTENT_LENGTH \<le> length t
     \<Longrightarrow> extract_html w url html = Inr (Some (clean_text t))"
  by (auto simp: extract_html_def MIN_CONTENT_LENGTH_def)

lemma extract_html_selectors:
  "article_text w url html = Inr t \<Longrightarrow> \<not> MIN_CONTENT_LENGTH \<le> length t
     \<Longrightarrow> extract_from_selectors w html = Some s \<Longrightarrow> MIN_CONTENT_LENGTH \<le> length s
     \<Longrightarrow> extract_html w url html = Inr (Some (clean_text s))"
  by (auto simp: extract_html_def MIN_CONTENT_LENGTH_def)

lemma example_page_not_blocked:
  "\<not> is_cloudflare_blocked ''<html><body>news</body></html>''"
  by (simp add: is_cloudflare_blocked_def CLOUDFLARE_MARKERS_def lower_def lower_char_def)

lemma example_url_not_pdf: "\<not> is_pdf_url ''https://example.com/news''"
  by (simp add: is_pdf_url_def lower_def lower_char_def ends_with_def)

lemma clean_spaced_text:
  "clean_text spaced_text = replicate 60 (CHR ''a'') @ '' '' @ replicate 38 (CHR ''b'')"
  by code_simp

text \<open>
  Claim C9: when the page is fetched with status 200, is no challenge page, and the
  article library (or, after it came up short, the selector fallback) gives a text that
  meets the length threshold, \<open>_scrape_html\<close> returns from the lightweight strategy: the
  only strategy that ran is the network fetch, and for a non-document URL
  \<open>scrape_article\<close> never starts the browser.
\<close>

theorem cascade_short_circuit:
  assumes "http_get w url = Inr (200, html)"
    and "\<not> is_cloudflare_blocked html"
    and "article_text w url html = Inr t"
    and "MIN_CONTENT_LENGTH \<le> length t
         \<or> (extract_from_selectors w html = Some s \<and> MIN_CONTENT_LENGTH \<le> length s)"
  shows "snd (scrape_html w url) = [Requests]
         \<and> fst (scrape_html w url)
             = Inr (Some (clean_text (if MIN_CONTENT_LENGTH \<le> length t then t else s)))
         \<and> (\<not> is_pdf_url url \<longrightarrow> BrowserHtml \<notin> set (snd (scrape_article w url)))"
proof -
  have ex: "extract_html w url html
            = Inr (Some (clean_text (if MIN_CONTENT_LENGTH \<le> length t then t else s)))"
    using assms(3,4) extract_html_article extract_html_selectors
    by (cases "MIN_CONTENT_LENGTH \<le> length t") auto
  have "scrape_html w url
        = (Inr (Some (clean_text (if MIN_CONTENT_LENGTH \<le> length t then t else s))), [Requests])"
    using assms(1,2) ex by (simp add: scrape_html_def)
  then show ?thesis
    by (simp add: scrape_article_def)
qed

theorem cascade_short_circuit_witness:
  "snd (scrape_html article_web ''https://example.com/news'') = [Requests]
   \<and> BrowserHtml \<notin> set (snd (scrape_article article_web ''https://example.com/news''))"
proof -
  have len: "MIN_CONTENT_LENGTH \<le> length (replicate 120 (CHR ''a''))"
    by (simp add: MIN_CONTENT_LENGTH_def)
  show ?thesis
    using cascade_short_circuit [of article_web "''https://example.com/news''"
        "''<html><body>news</body></html>''" "replicate 120 (CHR ''a'')" "[]"]
      len example_page_not_blocked example_url_not_pdf
    by (simp add: article_web_def offline_web_def)
qed

text \<open>
  Claim C7 at a failing input. The article library reads 100 characters, so the length
  test passes; \<open>clean_text\<close> then folds the two blanks into one and the result that
  \<open>scrape_article\<close> returns as a success has 99 characters. The document pipeline tests
  the cleaned text; the HTML pipeline tests the text before cleaning.
\<close>

theorem scrape_article_short_success:
  "fst (scrape_article spaced_web ''https://example.com/news'')
     = Inr (Some (replicate 60 (CHR ''a'') @ '' '' @ replicate 38 (CHR ''b'')))
   \<and> length (replicate 60 (CHR ''a'') @ '' '' @ replicate 38 (CHR ''b'')) = 99"
  using example_page_not_blocked example_url_not_pdf clean_spaced_text
  by (simp add: scrape_article_def scrape_html_def spaced_web_def offline_web_def
      extract_html_def MIN_CONTENT_LENGTH_def spaced_text_def)

text \<open>
  Claim C8 at a failing input. The request fails, so the cascade goes to the browser;
  the browser cannot be launched, and the launch stands before the \<open>try\<close> of
  \<open>_run_browser_html\<close>: the exception leaves \<open>scrape_article\<close>, and
  \<open>analyze_single\<close>, which calls it outside its own \<open>try\<close>, raises too instead of
  falling back to title and summary.
\<close>

theorem scrape_article_raises:
  "fst (scrape_article offline_web ''https://example.com/news'') = Inl External
   \<and> analysis_content offline_web ''https://example.com/news'' ''Title'' ''Summary''
       = Inl External"
  using example_url_not_pdf
  by (simp add: analysis_content_def scrape_article_def scrape_html_def offline_web_def
      run_browser_html_def)

section \<open>Properties of the dedup gate\<close>

lemma load_all_cache_ok:
  "json_cache_ok s \<Longrightarrow>
     fst (load_all s) = load_files (files s) \<and> files (snd (load_all s)) = files s
     \<and> cache (snd (load_all s)) = Some (load_files (files s))"
  by (auto simp: load_all_def json_cache_ok_def Let_def split: option.splits)
























section \<open>Properties of the timestamp normalisation\<close>



lemma mod_decomp: "0 \<le> r \<Longrightarrow> r < m \<Longrightarrow> (m * k + r) mod m = (r::int)"
  by (simp add: mod_pos_pos_trivial)























section \<open>Properties of the collection cycle\<close>

lemma scan_sources_fetched:
  "(src, es, lnk) \<in> set (scan_sources env state sources)
     \<Longrightarrow> src \<in> set sources \<and> \<not> isl (fetch env src)"
  by (induction sources) (auto split: sum.splits if_splits prod.splits)

lemma update_state_other:
  "k \<notin> set (map (\<lambda>x. sid (fst x)) all_new) \<Longrightarrow> update_state now state all_new k = state k"
  by (induction all_new arbitrary: state) auto

lemma failed_source_untouched:
  assumes "distinct (map sid sources)" "src \<in> set sources" "isl (fetch env src)"
  shows "update_state now state (scan_sources env state sources) (sid src) = state (sid src)"
proof -
  have "sid src \<notin> set (map (\<lambda>x. sid (fst x)) (scan_sources env state sources))"
  proof
    assume "sid src \<in> set (map (\<lambda>x. sid (fst x)) (scan_sources env state sources))"
    then obtain src' es lnk where m: "(src', es, lnk) \<in> set (scan_sources env state sources)"
      and e: "sid src' = sid src"
      by auto
    have s': "src' \<in> set sources" "\<not> isl (fetch env src')"
      using scan_sources_fetched [OF m] by auto
    have "src' = src"
      using assms(1,2) s'(1) e by (meson distinct_map inj_onD)
    then show False using s'(2) assms(3) by simp
  qed
  then show ?thesis by (rule update_state_other)
qed

text \<open>
  Claim C6, as the code has it. A cycle hands the watermarks to \<open>save_state\<close> at most
  once; it does so exactly when no exception aborted it and at least one source brought
  new entries, and then as its last step, after fetching, classifying and storing. With
  distinct source ids, the saved state holds, for every source whose fetch raised, the
  watermark entry that source had before the cycle.
\<close>

theorem watermarks_saved_at_end:
  "length (state_saves (cmd_collect env state st sources)) \<le> 1
   \<and> (state_saves (cmd_collect env state st sources) \<noteq> []
        \<longleftrightarrow> raised (cmd_collect env state st sources) = None
            \<and> scan_sources env state sources \<noteq> [])
   \<and> (distinct (map sid sources) \<longrightarrow>
        (\<forall>src. src \<in> set sources \<and> isl (fetch env src) \<longrightarrow>
           list_all (\<lambda>saved. saved (sid src) = state (sid src))
             (state_saves (cmd_collect env state st sources))))"
proof -
  have a: "length (state_saves (cmd_collect env state st sources)) \<le> 1"
    by (simp add: cmd_collect_def Let_def split: sum.splits prod.splits option.splits)
  have b: "state_saves (cmd_collect env state st sources) \<noteq> []
        \<longleftrightarrow> raised (cmd_collect env state st sources) = None
            \<and> scan_sources env state sources \<noteq> []"
    by (simp add: cmd_collect_def Let_def split: sum.splits prod.splits option.splits)
  have c: "list_all (\<lambda>saved. saved (sid src) = state (sid src))
             (state_saves (cmd_collect env state st sources))"
    if "distinct (map sid sources)" "src \<in> set sources" "isl (fetch env src)" for src
    using failed_source_untouched [OF that]
    by (simp add: cmd_collect_def Let_def split: sum.splits prod.splits option.splits)
  show ?thesis using a b c by blast
qed











lemma example_cycle_completes:
  "raised (cmd_collect example_cycle (\<lambda>k. None) (JStore empty_json) [src_a, src_s, src_b]) = None"
  by code_simp

lemma example_cycle_scans:
  "scan_sources example_cycle (\<lambda>k. None) [src_a, src_s, src_b] \<noteq> []"
  by code_simp


lemma example_cycle_notified:
  "map (map published_at)
     (notified (cmd_collect example_cycle (\<lambda>k. None) (JStore empty_json) [src_a, src_s, src_b]))
   = [[''2024-05-01T10:00:00+00:00'', ''2024-05-01T03:00:00+00:00'']]"
  by code_simp


lemma example_sids: "map sid [src_a, src_s, src_b] = [''1'', ''2'', ''3'']"
  by code_simp

lemma example_fetch_fails: "isl (fetch example_cycle src_s)"
  by code_simp

text \<open>
  In the example cycle the social-API source fails and the two feeds bring one entry
  each: the state is saved once, and the failed source has no watermark after the cycle,
  as before it.
\<close>

theorem watermarks_saved_at_end_witness:
  "distinct (map sid [src_a, src_s, src_b]) \<and> isl (fetch example_cycle src_s)
   \<and> length (state_saves
        (cmd_collect example_cycle (\<lambda>k. None) (JStore empty_json) [src_a, src_s, src_b])) = 1
   \<and> list_all (\<lambda>saved. saved (sid src_s) = None)
        (state_saves
          (cmd_collect example_cycle (\<lambda>k. None) (JStore empty_json) [src_a, src_s, src_b]))"
proof -
  let ?res = "cmd_collect example_cycle (\<lambda>k. None) (JStore empty_json) [src_a, src_s, src_b]"
  note spec = watermarks_saved_at_end
    [of example_cycle "\<lambda>k. None" "JStore empty_json" "[src_a, src_s, src_b]"]
  have d: "distinct (map sid [src_a, src_s, src_b])"
    unfolding example_sids by simp
  have ne: "state_saves ?res \<noteq> []"
    using spec example_cycle_completes example_cycle_scans by blast
  have le: "length (state_saves ?res) \<le> 1"
    using spec by blast
  have one: "length (state_saves ?res) = 1"
    using ne le by (cases "state_saves ?res") auto
  have kept: "list_all (\<lambda>saved. saved (sid src_s) = None) (state_saves ?res)"
    using spec d example_fetch_fails by auto
  show ?thesis using d example_fetch_fails one kept by blast
qed

text \<open>
  The claim as written fails where no source brings anything new: with the first feed
  up to date and the social-API source failing, the cycle ends without raising and
  \<open>save_state\<close> is not called at all.
\<close>

theorem up_to_date_cycle_saves_nothing:
  "state_saves (cmd_collect example_cycle seen_state (JStore empty_json) [src_a, src_s]) = []
   \<and> raised (cmd_collect example_cycle seen_state (JStore empty_json) [src_a, src_s]) = None"
  by code_simp


end
